theory Spec2Isabelle
  imports Main
begin

section \<open>Error chain model (package models, errors.go)\<close>

text \<open>
  \<^verbatim>\<open>type Code string\<close>: a kind is a Go string, here a list of 8-bit characters.
\<close>

type_synonym Code = string

definition KindUnknown :: Code where
  "KindUnknown = ''Unknown''"

definition KindDatabaseError :: Code where
  "KindDatabaseError = ''Database''"

definition KindCommunicationError :: Code where
  "KindCommunicationError = ''Communication''"

definition KindEntityDoesNotExistError :: Code where
  "KindEntityDoesNotExistError = ''NotFound''"

definition KindEntityStateError :: Code where
  "KindEntityStateError = ''InvalidState''"

definition KindServerError :: Code where
  "KindServerError = ''Unknown/Unexpected''"

definition KindLimitExceeded :: Code where
  "KindLimitExceeded = ''LimitExceeded''"

text \<open>
  The dynamic values of Go's \<^verbatim>\<open>error\<close> interface that the package produces or meets:
  \<^item> \<open>ErrContractInvalid errMsg\<close>, the package's validation error;
  \<^item> \<open>errorString s\<close>, the value of \<^verbatim>\<open>errors.New(s)\<close>: an opaque error with no cause;
  \<^item> \<open>wrapError msg e\<close>, the value of \<^verbatim>\<open>fmt.Errorf\<close> with a \<^verbatim>\<open>%w\<close> verb: an opaque
    wrapper whose \<^verbatim>\<open>Unwrap\<close> gives \<open>e\<close>;
  \<^item> \<open>CE ce\<close>, a \<^verbatim>\<open>CommonEdgexError\<close> struct held in the interface.
  The struct has the fields \<^verbatim>\<open>op\<close>, \<^verbatim>\<open>Kind\<close>, \<^verbatim>\<open>Message\<close> and \<^verbatim>\<open>err\<close>; the nested
  \<^verbatim>\<open>err\<close> is an interface value that may be \<^verbatim>\<open>nil\<close>, so it is an option. A possibly-nil
  \<^verbatim>\<open>error\<close> is an \<open>error option\<close> throughout, \<open>None\<close> being \<^verbatim>\<open>nil\<close>.
\<close>

datatype error =
    ErrContractInvalid string
  | errorString string
  | wrapError string error
  | CE CommonEdgexError
and CommonEdgexError =
    CommonEdgexError (ce_op: string) (ce_Kind: Code) (ce_Message: string) (ce_err: "error option")

definition NewErrContractInvalid :: "string \<Rightarrow> error" where
  "NewErrContractInvalid message = ErrContractInvalid message"

text \<open>
  The method \<^verbatim>\<open>Error()\<close>, dispatched on the dynamic type. For \<^verbatim>\<open>CommonEdgexError\<close> it is
  the source's method: the message alone when \<^verbatim>\<open>ce.err == nil\<close>, and otherwise
  \<^verbatim>\<open>ce.op + " " + ce.Message + ": " + ce.err.Error()\<close>.
\<close>

fun Error :: "error \<Rightarrow> string"
  and CommonEdgexError_Error :: "CommonEdgexError \<Rightarrow> string" where
  "Error (ErrContractInvalid errMsg) = errMsg"
| "Error (errorString s) = s"
| "Error (wrapError msg e) = msg"
| "Error (CE ce) = CommonEdgexError_Error ce"
| "CommonEdgexError_Error (CommonEdgexError op kind message None) = message"
| "CommonEdgexError_Error (CommonEdgexError op kind message (Some e)) =
     op @ '' '' @ message @ '': '' @ Error e"

definition CommonEdgexError_Unwrap :: "CommonEdgexError \<Rightarrow> error option" where
  "CommonEdgexError_Unwrap ce = ce_err ce"

definition CommonEdgexError_Is :: "CommonEdgexError \<Rightarrow> error \<Rightarrow> bool" where
  "CommonEdgexError_Is ce e = (case e of CE _ \<Rightarrow> True | _ \<Rightarrow> False)"

text \<open>
  \<^verbatim>\<open>errors.Unwrap\<close> of the Go standard library: the result of the value's \<^verbatim>\<open>Unwrap\<close> method
  when its type has one, and \<^verbatim>\<open>nil\<close> otherwise.
\<close>

fun Unwrap :: "error \<Rightarrow> error option" where
  "Unwrap (CE ce) = CommonEdgexError_Unwrap ce"
| "Unwrap (wrapError msg e) = Some e"
| "Unwrap (errorString s) = None"
| "Unwrap (ErrContractInvalid errMsg) = None"

text \<open>
  \<^verbatim>\<open>errors.As(err, &e)\<close> of the Go standard library with a target of type
  \<^verbatim>\<open>CommonEdgexError\<close>: the loop \<^verbatim>\<open>for err != nil\<close> that stores the first value of the chain
  whose dynamic type is \<^verbatim>\<open>CommonEdgexError\<close> in the target and returns true, and moves to
  \<^verbatim>\<open>Unwrap(err)\<close> otherwise. The result is \<open>Some ce\<close> for true with \<open>ce\<close> stored, and
  \<open>None\<close> for false (the target is left as it was). None of the error types above has an
  \<^verbatim>\<open>As\<close> method, so that branch of the library's loop never fires.
\<close>

function As :: "error option \<Rightarrow> CommonEdgexError option" where
  "As None = None"
| "As (Some e) = (case e of CE ce \<Rightarrow> Some ce | _ \<Rightarrow> As (Unwrap e))"
  by pat_completeness auto
termination
  by (relation "measure (\<lambda>eo. case eo of None \<Rightarrow> 0 | Some e \<Rightarrow> Suc (size e))") auto

definition Kind :: "error option \<Rightarrow> Code" where
  "Kind err = (case As err of None \<Rightarrow> KindUnknown | Some e \<Rightarrow> ce_Kind e)"

text \<open>
  \<^verbatim>\<open>addCallerInformation\<close> reads the call stack of the running program
  (\<^verbatim>\<open>runtime.Callers\<close>); the string it returns is the parameter \<open>caller\<close> of the
  constructor.
\<close>

definition NewCommonEdgexError :: "string \<Rightarrow> Code \<Rightarrow> string \<Rightarrow> error option \<Rightarrow> CommonEdgexError" where
  "NewCommonEdgexError caller kind message wrappedError =
     CommonEdgexError caller kind message wrappedError"

section \<open>Boundary responder (package http)\<close>

definition StatusInternalServerError :: int where
  "StatusInternalServerError = 500"

definition StatusNotFound :: int where
  "StatusNotFound = 404"

definition StatusConflict :: int where
  "StatusConflict = 409"

definition StatusRequestEntityTooLarge :: int where
  "StatusRequestEntityTooLarge = 413"

definition ResponseMap :: "Code \<rightharpoonup> int" where
  "ResponseMap =
     [KindUnknown \<mapsto> StatusInternalServerError,
      KindDatabaseError \<mapsto> StatusInternalServerError,
      KindServerError \<mapsto> StatusInternalServerError,
      KindCommunicationError \<mapsto> StatusInternalServerError,
      KindEntityDoesNotExistError \<mapsto> StatusNotFound,
      KindEntityStateError \<mapsto> StatusConflict,
      KindLimitExceeded \<mapsto> StatusRequestEntityTooLarge]"

text \<open>
  The response writer is the sequence of calls it has received, oldest first:
  \<^verbatim>\<open>w.WriteHeader(code)\<close> and \<^verbatim>\<open>w.Write(bytes)\<close>.
\<close>

datatype call = WriteHeader int | Write string

type_synonym ResponseWriter = "call list"

text \<open>
  The zero value of \<^verbatim>\<open>var ce models.CommonEdgexError\<close>.
\<close>

definition zero_CommonEdgexError :: CommonEdgexError where
  "zero_CommonEdgexError = CommonEdgexError [] [] [] None"

text \<open>
  \<^verbatim>\<open>ToHttpResponse(e, w, decoder)\<close>. The decoder takes an \<^verbatim>\<open>interface{}\<close>, which here holds
  either the error \<open>e\<close> or the struct \<open>ce\<close>, and returns the bytes and an error, \<open>None\<close>
  being \<^verbatim>\<open>nil\<close>. The pair \<open>(w1, returned)\<close> is the writer after the block guarded by
  \<^verbatim>\<open>if !ok\<close> and whether that block left the function through its \<^verbatim>\<open>return\<close>. An index
  expression on a Go map gives the zero value, 0, for a key that is absent.
\<close>

definition ToHttpResponse ::
  "error option \<Rightarrow> ResponseWriter \<Rightarrow> (error option \<Rightarrow> string \<times> error option) \<Rightarrow> ResponseWriter" where
  "ToHttpResponse e w decoder =
     (let kind = Kind e;
          (ce, ok) = (case As e of None \<Rightarrow> (zero_CommonEdgexError, False) | Some c \<Rightarrow> (c, True));
          (w1, returned) =
            (if \<not> ok then
               (let w0 = w @ [WriteHeader StatusInternalServerError];
                    (message, err) = decoder e
                in if err \<noteq> None then (w0 @ [Write message], True)
                   else (w0 @ [Write ''Unknown error''], False))
             else (w, False))
      in if returned then w1
         else
           (let statusCode = (case ResponseMap (Kind (Some (CE ce))) of None \<Rightarrow> 0 | Some s \<Rightarrow> s);
                (message, err) = decoder (Some (CE ce));
                w2 = w1 @ [WriteHeader statusCode]
            in if err \<noteq> None then w2 @ [Write ''Unable to process error'']
               else w2 @ [Write message]))"

text \<open>
  \<^verbatim>\<open>strings.Split(s, sep)\<close> of the Go standard library for a separator of one byte: the
  segment before the first separator, then the split of what follows it; a string with no
  separator is its own single segment.
\<close>

function Split :: "string \<Rightarrow> char \<Rightarrow> string list" where
  "Split s sep =
     (case dropWhile (\<lambda>c. c \<noteq> sep) s of
        [] \<Rightarrow> [s]
      | _ # rest \<Rightarrow> takeWhile (\<lambda>c. c \<noteq> sep) s # Split rest sep)"
  by pat_completeness auto
termination
proof (relation "measure (\<lambda>(s, sep). length s)")
  fix s :: string and sep x21 x22
  assume "dropWhile (\<lambda>c. c \<noteq> sep) s = x21 # x22"
  then have "length (x21 # x22) \<le> length s"
    by (metis length_dropWhile_le)
  then show "((x22, sep), (s, sep)) \<in> measure (\<lambda>(s, sep). length s)"
    by simp
qed simp

declare Split.simps [simp del]

text \<open>
  A run-time panic of the Go program: indexing a slice of length \<open>n\<close> at \<open>i\<close> with
  \<open>n \<le> i\<close>.
\<close>

datatype runtime_panic = IndexOutOfRange nat nat

text \<open>
  \<^verbatim>\<open>FromServiceClientError(esc)\<close>. The type \<^verbatim>\<open>types.ErrServiceClient\<close> is declared outside
  this file, so the string \<^verbatim>\<open>esc.Error()\<close> is the argument \<open>escError\<close>.
  \<^verbatim>\<open>json.Unmarshal\<close> of the Go standard library is the parameter \<open>Unmarshal\<close>: on the
  bytes of the payload it gives either its error or the values it stores in the exported
  fields \<^verbatim>\<open>Kind\<close> and \<^verbatim>\<open>Message\<close> of the zero-valued target (it cannot reach the
  unexported \<^verbatim>\<open>op\<close> and \<^verbatim>\<open>err\<close>). The index expression \<^verbatim>\<open>body[1]\<close> panics on a slice
  shorter than two.
\<close>

definition FromServiceClientError ::
  "(string \<Rightarrow> error + Code \<times> string) \<Rightarrow> string \<Rightarrow> string \<Rightarrow> runtime_panic + CommonEdgexError" where
  "FromServiceClientError Unmarshal caller escError =
     (let body = Split escError CHR ''-''
      in if length body \<le> 1 then Inl (IndexOutOfRange 1 (length body))
         else
           (case Unmarshal (body ! 1) of
              Inl err \<Rightarrow>
                Inr (NewCommonEdgexError caller KindServerError ''Client error'' (Some err))
            | Inr (kind, message) \<Rightarrow> Inr (CommonEdgexError [] kind message None)))"



section \<open>Notions used to state the properties\<close>

text \<open>
  The chain of an error: the error itself, then what \<^verbatim>\<open>errors.Unwrap\<close> gives, one layer at
  a time, until \<^verbatim>\<open>nil\<close>. The outermost error comes first.
\<close>

function unwrap_chain :: "error option \<Rightarrow> error list" where
  "unwrap_chain None = []"
| "unwrap_chain (Some e) = e # unwrap_chain (Unwrap e)"
  by pat_completeness auto
termination
proof (relation "measure (\<lambda>eo. case eo of None \<Rightarrow> 0 | Some e \<Rightarrow> Suc (size e))")
  fix e :: error
  have "size e' < size e" if "Unwrap e = Some e'" for e'
  proof (cases e)
    case (CE ce)
    with that show ?thesis
      by (cases ce) (simp add: CommonEdgexError_Unwrap_def)
  qed (use that in simp_all)
  then show "(Unwrap e, Some e) \<in> measure (\<lambda>eo. case eo of None \<Rightarrow> 0 | Some e \<Rightarrow> Suc (size e))"
    by (simp split: option.splits)
qed simp

definition isCommonEdgexError :: "error \<Rightarrow> bool" where
  "isCommonEdgexError e = (case e of CE _ \<Rightarrow> True | _ \<Rightarrow> False)"

text \<open>
  A chain built by repeated wrapping: each layer \<open>(op, kind, message)\<close>, outermost first, is
  a \<^verbatim>\<open>NewCommonEdgexError(kind, message, inner)\<close> created at the call site \<open>op\<close>.
\<close>

fun wrapLayers :: "(string \<times> Code \<times> string) list \<Rightarrow> error \<Rightarrow> error" where
  "wrapLayers [] e = e"
| "wrapLayers ((op, kind, message) # ls) e =
     CE (NewCommonEdgexError op kind message (Some (wrapLayers ls e)))"

section \<open>Auxiliary facts\<close>

lemmas Kind_consts =
  KindUnknown_def KindDatabaseError_def KindCommunicationError_def
  KindEntityDoesNotExistError_def KindEntityStateError_def KindServerError_def
  KindLimitExceeded_def

lemmas Status_consts =
  StatusInternalServerError_def StatusNotFound_def StatusConflict_def
  StatusRequestEntityTooLarge_def

lemma As_find:
  "As err = (case find isCommonEdgexError (unwrap_chain err) of
               Some (CE ce) \<Rightarrow> Some ce | _ \<Rightarrow> None)"
proof (induction err rule: As.induct)
  case 1
  show ?case by simp
next
  case (2 e)
  then show ?case
    by (cases e) (simp_all add: isCommonEdgexError_def)
qed

lemma Kind_through_two_wrappers:
  "Kind (Some (wrapError m1 (wrapError m2 (CE (CommonEdgexError op KindEntityDoesNotExistError m None))))) =
     KindEntityDoesNotExistError"
  by (simp add: Kind_def)

lemma Kind_plain_error: "Kind (Some (errorString s)) = KindUnknown" and "Kind None = KindUnknown"
  by (simp_all add: Kind_def)

lemma Kind_nested_outermost:
  "Kind (Some (CE (CommonEdgexError op1 k1 m1 (Some (CE (CommonEdgexError op2 k2 m2 c)))))) = k1"
  by (simp add: Kind_def)

lemma ResponseMap_values:
  "ResponseMap KindUnknown = Some 500"
  "ResponseMap KindDatabaseError = Some 500"
  "ResponseMap KindServerError = Some 500"
  "ResponseMap KindCommunicationError = Some 500"
  "ResponseMap KindEntityDoesNotExistError = Some 404"
  "ResponseMap KindEntityStateError = Some 409"
  "ResponseMap KindLimitExceeded = Some 413"
  by (simp_all add: ResponseMap_def Kind_consts Status_consts)

text \<open>The three paths through \<^verbatim>\<open>ToHttpResponse\<close>.\<close>

lemma ToHttpResponse_found:
  assumes "As e = Some ce"
  shows "ToHttpResponse e w decoder =
           w @ [WriteHeader (case ResponseMap (ce_Kind ce) of None \<Rightarrow> 0 | Some s \<Rightarrow> s),
                Write (if snd (decoder (Some (CE ce))) \<noteq> None then ''Unable to process error''
                       else fst (decoder (Some (CE ce))))]"
  using assms by (simp add: ToHttpResponse_def Kind_def Let_def split: prod.splits)

lemma ToHttpResponse_opaque_encode_fails:
  assumes "As e = None" and "snd (decoder e) \<noteq> None"
  shows "ToHttpResponse e w decoder = w @ [WriteHeader 500, Write (fst (decoder e))]"
  using assms
  by (auto simp add: ToHttpResponse_def Let_def Status_consts split: prod.splits)

lemma ToHttpResponse_opaque_encode_succeeds:
  assumes "As e = None" and "snd (decoder e) = None"
  shows "ToHttpResponse e w decoder =
           w @ [WriteHeader 500, Write ''Unknown error'', WriteHeader 0,
                Write (if snd (decoder (Some (CE zero_CommonEdgexError))) \<noteq> None
                       then ''Unable to process error''
                       else fst (decoder (Some (CE zero_CommonEdgexError))))]"
  using assms
  by (auto simp add: ToHttpResponse_def Let_def Status_consts Kind_def ResponseMap_def
        zero_CommonEdgexError_def Kind_consts split: prod.splits)

text \<open>Segments of \<^verbatim>\<open>strings.Split\<close>.\<close>

lemma Split_no_sep: "sep \<notin> set s \<Longrightarrow> Split s sep = [s]"
proof -
  assume "sep \<notin> set s"
  then have d: "dropWhile (\<lambda>c. c \<noteq> sep) s = []" by auto
  show ?thesis by (subst Split.simps) (simp only: d list.case)
qed

lemma Split_first:
  assumes "sep \<notin> set p"
  shows "Split (p @ sep # r) sep = p # Split r sep"
proof -
  from assms have "dropWhile (\<lambda>c. c \<noteq> sep) (p @ sep # r) = sep # r"
    by (auto simp add: dropWhile_append3)
  moreover from assms have "takeWhile (\<lambda>c. c \<noteq> sep) (p @ sep # r) = p"
    by (auto simp add: takeWhile_tail)
  ultimately show ?thesis
    by (subst Split.simps) simp
qed

lemma Split_length: "length (Split s sep) = Suc (count_list s sep)"
proof (induction s sep rule: Split.induct)
  case (1 s sep)
  show ?case
  proof (cases "dropWhile (\<lambda>c. c \<noteq> sep) s")
    case Nil
    then have "sep \<notin> set s" by auto
    then show ?thesis by (simp add: Split_no_sep)
  next
    case (Cons a rest)
    then have a: "a = sep" using hd_dropWhile[of "\<lambda>c. c \<noteq> sep" s] by auto
    have s: "s = takeWhile (\<lambda>c. c \<noteq> sep) s @ sep # rest"
      using Cons a takeWhile_dropWhile_id[of "\<lambda>c. c \<noteq> sep" s] by simp
    have n: "sep \<notin> set (takeWhile (\<lambda>c. c \<noteq> sep) s)"
      by (auto dest: set_takeWhileD)
    have "count_list s sep = Suc (count_list rest sep)"
      by (subst s) (use n in \<open>simp add: count_list_0_iff\<close>)
    moreover have "Split s sep = takeWhile (\<lambda>c. c \<noteq> sep) s # Split rest sep"
      by (subst Split.simps) (simp add: Cons)
    ultimately show ?thesis using 1[OF Cons] by simp
  qed
qed

lemma Split_second_segment:
  assumes "sep \<notin> set prefix" and "sep \<notin> set payload"
    and "rest = [] \<or> (\<exists>more. rest = sep # more)"
  shows "\<exists>segments. Split (prefix @ sep # payload @ rest) sep = prefix # payload # segments"
proof -
  have "\<exists>segments. Split (payload @ rest) sep = payload # segments"
    using assms(2,3) by (auto simp add: Split_no_sep Split_first)
  then show ?thesis
    using assms(1) by (simp add: Split_first)
qed

lemma FromServiceClientError_segments:
  assumes "CHR ''-'' \<notin> set prefix" and "CHR ''-'' \<notin> set payload"
    and "rest = [] \<or> (\<exists>more. rest = CHR ''-'' # more)"
  shows "FromServiceClientError Unmarshal caller (prefix @ ''-'' @ payload @ rest) =
           (case Unmarshal payload of
              Inl err \<Rightarrow>
                Inr (NewCommonEdgexError caller KindServerError ''Client error'' (Some err))
            | Inr (kind, message) \<Rightarrow> Inr (CommonEdgexError [] kind message None))"
proof -
  obtain segments
    where "Split (prefix @ CHR ''-'' # payload @ rest) CHR ''-'' = prefix # payload # segments"
    using Split_second_segment [OF assms] by blast
  then show ?thesis
    by (simp add: FromServiceClientError_def)
qed

lemma FromServiceClientError_panics_iff:
  "(\<exists>p. FromServiceClientError Unmarshal caller s = Inl p) \<longleftrightarrow> CHR ''-'' \<notin> set s"
  by (auto simp add: FromServiceClientError_def Let_def Split_length count_list_0_iff
        split: sum.splits)

lemma Error_wrapLayers:
  "Error (wrapLayers ls (CE (NewCommonEdgexError op kind message None))) =
     concat (map (\<lambda>(op, kind, message). op @ '' '' @ message @ '': '') ls) @ message"
  by (induction ls) (auto simp add: NewCommonEdgexError_def)

section \<open>Properties of the error chain model\<close>

text \<open>
  C3. \<^verbatim>\<open>Kind\<close> returns the \<^verbatim>\<open>Kind\<close> field of the first \<^verbatim>\<open>CommonEdgexError\<close> met when the
  error is unwrapped one layer at a time from the outside, whatever opaque layers come
  before it and whatever follows it, and \<^verbatim>\<open>KindUnknown\<close> when the chain holds none.
\<close>

theorem Kind_shallowest_CommonEdgexError:
  "Kind err = (case find isCommonEdgexError (unwrap_chain err) of
                 Some (CE ce) \<Rightarrow> ce_Kind ce | _ \<Rightarrow> KindUnknown)"
  by (simp add: Kind_def As_find split: option.splits error.splits)

text \<open>
  C4. \<^verbatim>\<open>CommonEdgexError.Error()\<close> is the message alone when the nested error is \<^verbatim>\<open>nil\<close>,
  and otherwise \<^verbatim>\<open>op\<close>, a space, the message, a colon and a space, and the nested error's
  own \<^verbatim>\<open>Error()\<close>. So for a chain built by repeated wrapping the text holds every layer's
  message from the outermost to the innermost, each but the last followed by \<^verbatim>\<open>": "\<close>.
\<close>

theorem CommonEdgexError_Error_chain:
  "CommonEdgexError_Error (CommonEdgexError op kind message None) = message \<and>
   CommonEdgexError_Error (CommonEdgexError op kind message (Some e)) =
     op @ '' '' @ message @ '': '' @ Error e \<and>
   Error (wrapLayers ls (CE (NewCommonEdgexError op kind message None))) =
     concat (map (\<lambda>(op, kind, message). op @ '' '' @ message @ '': '') ls) @ message"
  by (simp add: Error_wrapLayers)

text \<open>
  C9. As the claim has it, the seven kind constants would be the strings \<^verbatim>\<open>"Unknown"\<close>,
  \<^verbatim>\<open>"Database"\<close>, \<^verbatim>\<open>"Communication"\<close>, \<^verbatim>\<open>"NotFound"\<close>, \<^verbatim>\<open>"InvalidState"\<close>,
  \<^verbatim>\<open>"ServerError"\<close> and \<^verbatim>\<open>"LimitExceeded"\<close>. The value of \<^verbatim>\<open>KindServerError\<close> is
  \<^verbatim>\<open>"Unknown/Unexpected"\<close>, not \<^verbatim>\<open>"ServerError"\<close>.
\<close>

theorem KindServerError_counterexample:
  "KindServerError = ''Unknown/Unexpected'' \<and> KindServerError \<noteq> ''ServerError''"
  by (simp add: KindServerError_def)

text \<open>
  C9, amended. The seven kind constants are pairwise distinct strings: \<^verbatim>\<open>"Unknown"\<close>,
  \<^verbatim>\<open>"Database"\<close>, \<^verbatim>\<open>"Communication"\<close>, \<^verbatim>\<open>"NotFound"\<close>, \<^verbatim>\<open>"InvalidState"\<close>,
  \<^verbatim>\<open>"Unknown/Unexpected"\<close> (the value of \<^verbatim>\<open>KindServerError\<close>) and \<^verbatim>\<open>"LimitExceeded"\<close>.
\<close>

theorem Kind_constants_distinct:
  "distinct [KindUnknown, KindDatabaseError, KindCommunicationError,
             KindEntityDoesNotExistError, KindEntityStateError, KindServerError,
             KindLimitExceeded] \<and>
   [KindUnknown, KindDatabaseError, KindCommunicationError,
    KindEntityDoesNotExistError, KindEntityStateError, KindServerError,
    KindLimitExceeded] =
   [''Unknown'', ''Database'', ''Communication'', ''NotFound'', ''InvalidState'',
    ''Unknown/Unexpected'', ''LimitExceeded'']"
  by (simp add: Kind_consts)

text \<open>
  C10. The value built by \<^verbatim>\<open>NewCommonEdgexError(k, m, c)\<close> gives back \<open>c\<close> from \<^verbatim>\<open>Unwrap\<close>
  (the method, and \<^verbatim>\<open>errors.Unwrap\<close> on the value as an error), \<open>k\<close> from its \<^verbatim>\<open>Kind\<close>
  field and from the function \<^verbatim>\<open>Kind\<close>, and \<open>m\<close> from its \<^verbatim>\<open>Message\<close> field, for every
  string \<open>k\<close>, whether or not it is one of the seven constants.
\<close>

theorem NewCommonEdgexError_roundtrip:
  "CommonEdgexError_Unwrap (NewCommonEdgexError caller k m c) = c \<and>
   Unwrap (CE (NewCommonEdgexError caller k m c)) = c \<and>
   ce_Kind (NewCommonEdgexError caller k m c) = k \<and>
   ce_Message (NewCommonEdgexError caller k m c) = m \<and>
   Kind (Some (CE (NewCommonEdgexError caller k m c))) = k"
  by (simp add: NewCommonEdgexError_def CommonEdgexError_Unwrap_def Kind_def)

section \<open>Properties of the boundary responder\<close>

text \<open>
  C6. \<^verbatim>\<open>ResponseMap\<close> has an entry for each of the seven kind constants and for nothing
  else; the seven keys are distinct, so there are seven entries. \<^verbatim>\<open>KindUnknown\<close>,
  \<^verbatim>\<open>KindDatabaseError\<close>, \<^verbatim>\<open>KindServerError\<close> and \<^verbatim>\<open>KindCommunicationError\<close> map to 500,
  \<^verbatim>\<open>KindEntityDoesNotExistError\<close> to 404, \<^verbatim>\<open>KindEntityStateError\<close> to 409 and
  \<^verbatim>\<open>KindLimitExceeded\<close> to 413.
\<close>

theorem ResponseMap_exhaustive:
  "dom ResponseMap =
     {KindUnknown, KindDatabaseError, KindServerError, KindCommunicationError,
      KindEntityDoesNotExistError, KindEntityStateError, KindLimitExceeded} \<and>
   card (dom ResponseMap) = 7 \<and>
   ResponseMap KindUnknown = Some 500 \<and>
   ResponseMap KindDatabaseError = Some 500 \<and>
   ResponseMap KindServerError = Some 500 \<and>
   ResponseMap KindCommunicationError = Some 500 \<and>
   ResponseMap KindEntityDoesNotExistError = Some 404 \<and>
   ResponseMap KindEntityStateError = Some 409 \<and>
   ResponseMap KindLimitExceeded = Some 413"
proof -
  have "dom ResponseMap =
     {KindUnknown, KindDatabaseError, KindServerError, KindCommunicationError,
      KindEntityDoesNotExistError, KindEntityStateError, KindLimitExceeded}"
    by (auto simp add: ResponseMap_def)
  moreover have "card (dom ResponseMap) = 7"
    by (simp add: ResponseMap_def Kind_consts)
  ultimately show ?thesis
    by (simp only: ResponseMap_values simp_thms)
qed

text \<open>
  C5. When the first \<^verbatim>\<open>CommonEdgexError\<close> of the chain is \<open>ce\<close> and \<^verbatim>\<open>ResponseMap\<close> assigns
  \<open>statusCode\<close> to its kind, \<^verbatim>\<open>ToHttpResponse\<close> adds two calls to the writer: the status
  \<open>statusCode\<close>, which is 413 for \<^verbatim>\<open>KindLimitExceeded\<close>, and one body, which is the
  decoder's output for \<open>ce\<close> when the decoder succeeds and the text
  \<^verbatim>\<open>"Unable to process error"\<close> when it fails.
\<close>

theorem ToHttpResponse_structured:
  assumes "find isCommonEdgexError (unwrap_chain e) = Some (CE ce)"
    and "ResponseMap (ce_Kind ce) = Some statusCode"
  shows "ToHttpResponse e w decoder =
           w @ [WriteHeader statusCode,
                Write (if snd (decoder (Some (CE ce))) \<noteq> None then ''Unable to process error''
                       else fst (decoder (Some (CE ce))))] \<and>
         (ce_Kind ce = KindLimitExceeded \<longrightarrow> statusCode = 413)"
proof -
  from assms(1) have "As e = Some ce"
    by (simp add: As_find)
  then have "ToHttpResponse e w decoder =
           w @ [WriteHeader statusCode,
                Write (if snd (decoder (Some (CE ce))) \<noteq> None then ''Unable to process error''
                       else fst (decoder (Some (CE ce))))]"
    using assms(2) by (simp add: ToHttpResponse_found)
  moreover have "statusCode = 413" if "ce_Kind ce = KindLimitExceeded"
    using that assms(2) by (simp add: ResponseMap_values)
  ultimately show ?thesis by blast
qed

theorem ToHttpResponse_structured_witness:
  "ToHttpResponse
     (Some (wrapError ''ctx'' (CE (CommonEdgexError ''op'' KindLimitExceeded ''too big'' None))))
     [] (\<lambda>v. (''body'', None)) = [WriteHeader 413, Write ''body''] \<and>
   ToHttpResponse
     (Some (CE (CommonEdgexError ''op'' KindEntityDoesNotExistError ''gone''
        (Some (errorString ''no rows'')))))
     [] (\<lambda>v. ([], Some (errorString ''cannot encode''))) =
     [WriteHeader 404, Write ''Unable to process error'']"
proof -
  let ?ce1 = "CommonEdgexError ''op'' KindLimitExceeded ''too big'' None"
  let ?ce2 = "CommonEdgexError ''op'' KindEntityDoesNotExistError ''gone''
        (Some (errorString ''no rows''))"
  have f1: "find isCommonEdgexError (unwrap_chain (Some (wrapError ''ctx'' (CE ?ce1)))) =
              Some (CE ?ce1)"
    by (simp add: isCommonEdgexError_def)
  have m1: "ResponseMap (ce_Kind ?ce1) = Some 413"
    by (simp add: ResponseMap_values)
  have f2: "find isCommonEdgexError (unwrap_chain (Some (CE ?ce2))) = Some (CE ?ce2)"
    by (simp add: isCommonEdgexError_def)
  have m2: "ResponseMap (ce_Kind ?ce2) = Some 404"
    by (simp add: ResponseMap_values)
  show ?thesis
    using ToHttpResponse_structured [OF f1 m1, of "[]" "\<lambda>v. (''body'', None)"]
      ToHttpResponse_structured [OF f2 m2, of "[]" "\<lambda>v. ([], Some (errorString ''cannot encode''))"]
    by simp
qed

text \<open>
  C1. For an error with no \<^verbatim>\<open>CommonEdgexError\<close> in its chain the claim expects status 500,
  then the encoded bytes when the decoder succeeds and \<^verbatim>\<open>"Unknown error"\<close> when it fails.
  The test \<^verbatim>\<open>err != nil\<close> of that block is the wrong way round. On \<^verbatim>\<open>errors.New("boom")\<close>
  with a decoder that fails with no bytes, the body written is the decoder's empty output.
  With a decoder that succeeds, giving \<^verbatim>\<open>"encoded boom"\<close> for that error and
  \<^verbatim>\<open>"encoded other"\<close> for any other value, the body written after the status 500 is
  \<^verbatim>\<open>"Unknown error"\<close>; the function then goes on into the path of a structured error, and
  the encoding of the error itself is never written.
\<close>

theorem ToHttpResponse_opaque_bodies_swapped:
  "ToHttpResponse (Some (errorString ''boom'')) []
     (\<lambda>v. ([], Some (errorString ''cannot encode''))) =
     [WriteHeader 500, Write []] \<and>
   ToHttpResponse (Some (errorString ''boom'')) []
     (\<lambda>v. if v = Some (errorString ''boom'') then (''encoded boom'', None)
          else (''encoded other'', None)) =
     [WriteHeader 500, Write ''Unknown error'', WriteHeader 0, Write ''encoded other'']"
  by (simp add: ToHttpResponse_opaque_encode_fails ToHttpResponse_opaque_encode_succeeds
        zero_CommonEdgexError_def)

text \<open>
  C2. The claim expects one status and one body for each call. On \<^verbatim>\<open>errors.New("boom")\<close>
  with a decoder that succeeds, the \<^verbatim>\<open>else\<close> branch of the first block has no \<^verbatim>\<open>return\<close>:
  the writer receives the status 500 and the body \<^verbatim>\<open>"Unknown error"\<close>, then a second status,
  0, looked up for the kind of the zero-valued struct, and a second body.
\<close>

theorem ToHttpResponse_writes_twice:
  "ToHttpResponse (Some (errorString ''boom'')) [] (\<lambda>v. (''encoded'', None)) =
     [WriteHeader 500, Write ''Unknown error'', WriteHeader 0, Write ''encoded'']"
  by (simp add: ToHttpResponse_opaque_encode_succeeds)

section \<open>Properties of the remote-error decoding\<close>



text \<open>
  C8. On a client error string \<open>prefix-payload\<close> or \<open>prefix-payload-...\<close>, where neither
  \<open>prefix\<close> nor \<open>payload\<close> holds a \<^verbatim>\<open>-\<close>, \<^verbatim>\<open>FromServiceClientError\<close> hands the second
  segment, \<open>payload\<close>, to \<^verbatim>\<open>json.Unmarshal\<close>. When that succeeds with a kind and a message, the
  result is the structured error with that kind and message. When it fails with \<open>err\<close>, the
  result is \<^verbatim>\<open>NewCommonEdgexError(KindServerError, "Client error", err)\<close>: kind
  \<^verbatim>\<open>KindServerError\<close>, message \<^verbatim>\<open>"Client error"\<close>, wrapped cause \<open>err\<close>. In particular, when
  \<^verbatim>\<open>json.Unmarshal\<close> reads kind \<^verbatim>\<open>"NotFound"\<close> and message \<^verbatim>\<open>"missing"\<close> from the payload of
  \<^verbatim>\<open>svc-{"kind":"NotFound","message":"missing"}\<close>, the result has kind \<^verbatim>\<open>NotFound\<close> and
  message \<^verbatim>\<open>"missing"\<close>.
\<close>

theorem FromServiceClientError_second_segment:
  assumes "CHR ''-'' \<notin> set prefix" and "CHR ''-'' \<notin> set payload"
    and "rest = [] \<or> (\<exists>more. rest = CHR ''-'' # more)"
  shows "(Unmarshal payload = Inr (kind, message) \<longrightarrow>
            FromServiceClientError Unmarshal caller (prefix @ ''-'' @ payload @ rest) =
              Inr (CommonEdgexError [] kind message None)) \<and>
         (Unmarshal payload = Inl err \<longrightarrow>
            FromServiceClientError Unmarshal caller (prefix @ ''-'' @ payload @ rest) =
              Inr (NewCommonEdgexError caller KindServerError ''Client error'' (Some err)) \<and>
            ce_Kind (NewCommonEdgexError caller KindServerError ''Client error'' (Some err)) =
              KindServerError \<and>
            ce_Message (NewCommonEdgexError caller KindServerError ''Client error'' (Some err)) =
              ''Client error'' \<and>
            CommonEdgexError_Unwrap
              (NewCommonEdgexError caller KindServerError ''Client error'' (Some err)) =
              Some err) \<and>
         (Unmarshal ''{\"kind\":\"NotFound\",\"message\":\"missing\"}'' =
            Inr (''NotFound'', ''missing'') \<longrightarrow>
            FromServiceClientError Unmarshal caller
              ''svc-{\"kind\":\"NotFound\",\"message\":\"missing\"}'' =
              Inr (CommonEdgexError [] KindEntityDoesNotExistError ''missing'' None))"
proof -
  note seg = FromServiceClientError_segments [OF assms, of Unmarshal caller]
  have ok: "Unmarshal payload = Inr (kind, message) \<longrightarrow>
            FromServiceClientError Unmarshal caller (prefix @ ''-'' @ payload @ rest) =
              Inr (CommonEdgexError [] kind message None)"
    using seg by simp
  have bad: "Unmarshal payload = Inl err \<longrightarrow>
            FromServiceClientError Unmarshal caller (prefix @ ''-'' @ payload @ rest) =
              Inr (NewCommonEdgexError caller KindServerError ''Client error'' (Some err)) \<and>
            ce_Kind (NewCommonEdgexError caller KindServerError ''Client error'' (Some err)) =
              KindServerError \<and>
            ce_Message (NewCommonEdgexError caller KindServerError ''Client error'' (Some err)) =
              ''Client error'' \<and>
            CommonEdgexError_Unwrap
              (NewCommonEdgexError caller KindServerError ''Client error'' (Some err)) =
              Some err"
    using seg by (simp add: NewCommonEdgexError_def CommonEdgexError_Unwrap_def)
  have "FromServiceClientError Unmarshal caller
          (''svc'' @ ''-'' @ ''{\"kind\":\"NotFound\",\"message\":\"missing\"}'' @ []) =
          Inr (CommonEdgexError [] KindEntityDoesNotExistError ''missing'' None)"
    if "Unmarshal ''{\"kind\":\"NotFound\",\"message\":\"missing\"}'' =
          Inr (''NotFound'', ''missing'')"
    by (subst FromServiceClientError_segments)
       (simp_all add: that KindEntityDoesNotExistError_def)
  then have ex: "Unmarshal ''{\"kind\":\"NotFound\",\"message\":\"missing\"}'' =
            Inr (''NotFound'', ''missing'') \<longrightarrow>
            FromServiceClientError Unmarshal caller
              ''svc-{\"kind\":\"NotFound\",\"message\":\"missing\"}'' =
              Inr (CommonEdgexError [] KindEntityDoesNotExistError ''missing'' None)"
    by simp
  from ok bad ex show ?thesis
    by (intro conjI)
qed

theorem FromServiceClientError_second_segment_witness:
  "FromServiceClientError
     (\<lambda>p. if p = ''{\"kind\":\"NotFound\",\"message\":\"missing\"}''
          then Inr (''NotFound'', ''missing'')
          else Inl (errorString ''unexpected end of JSON input''))
     ''op'' ''svc-{\"kind\":\"NotFound\",\"message\":\"missing\"}'' =
     Inr (CommonEdgexError [] ''NotFound'' ''missing'' None) \<and>
   FromServiceClientError
     (\<lambda>p. if p = ''{\"kind\":\"NotFound\",\"message\":\"missing\"}''
          then Inr (''NotFound'', ''missing'')
          else Inl (errorString ''unexpected end of JSON input''))
     ''op'' ''404-{\"kind\":\"Not-Found\"}'' =
     Inr (CommonEdgexError ''op'' ''Unknown/Unexpected'' ''Client error''
            (Some (errorString ''unexpected end of JSON input'')))"
proof -
  let ?U = "\<lambda>p. if p = ''{\"kind\":\"NotFound\",\"message\":\"missing\"}''
          then Inr (''NotFound'', ''missing'')
          else Inl (errorString ''unexpected end of JSON input'')"
  have a: "CHR ''-'' \<notin> set ''svc''"
    "CHR ''-'' \<notin> set ''{\"kind\":\"NotFound\",\"message\":\"missing\"}''"
    "[] = [] \<or> (\<exists>more. [] = CHR ''-'' # more)"
    by simp_all
  have b: "CHR ''-'' \<notin> set ''404''" "CHR ''-'' \<notin> set ''{\"kind\":\"Not''"
    "''-Found\"}'' = [] \<or> (\<exists>more. ''-Found\"}'' = CHR ''-'' # more)"
    by simp_all
  show ?thesis
    using FromServiceClientError_second_segment
        [OF a, of ?U "''NotFound''" "''missing''" "''op''"]
      FromServiceClientError_second_segment
        [OF b, of ?U _ _ "''op''" "errorString ''unexpected end of JSON input''"]
    by (simp add: NewCommonEdgexError_def KindServerError_def)
qed

end
